theory Spec2Isabelle
  imports Complex_Main "HOL-Library.FSet" "HOL-Library.Char_ord" "HOL-Library.List_Lexorder"
begin

section \<open>JavaScript strings\<close>

text \<open>
  Strings are lists of code points below 256. \<open>js_space\<close> is the class \<^verbatim>\<open>\s\<close> (and what
  \<^verbatim>\<open>trim\<close> removes), \<open>word_char\<close> the class \<^verbatim>\<open>\w\<close>; \<open>toLowerCase\<close> lowers the
  letters A to Z and the Latin-1 capitals. \<open>split_on sep\<close> is \<^verbatim>\<open>split\<close> on a
  regular expression \<^verbatim>\<open>[...]+\<close> of separator characters: a leading or trailing run of
  separators yields an empty first or last piece, as in JavaScript.
\<close>

definition js_space :: "char \<Rightarrow> bool" where
  "js_space c = (c \<in> set [CHR 0x09, CHR 0x0A, CHR 0x0B, CHR 0x0C, CHR 0x0D, CHR 0x20, CHR 0xA0])"

definition js_trim :: "string \<Rightarrow> string" where
  "js_trim s = rev (dropWhile js_space (rev (dropWhile js_space s)))"

definition lower_char :: "char \<Rightarrow> char" where
  "lower_char c =
     (let n = (of_char c :: nat)
      in if (65 \<le> n \<and> n \<le> 90) \<or> (192 \<le> n \<and> n \<le> 222 \<and> n \<noteq> 215)
         then char_of (n + 32) else c)"

definition toLowerCase :: "string \<Rightarrow> string" where
  "toLowerCase s = map lower_char s"

definition word_char :: "char \<Rightarrow> bool" where
  "word_char c =
     (let n = (of_char c :: nat)
      in (48 \<le> n \<and> n \<le> 57) \<or> (65 \<le> n \<and> n \<le> 90) \<or> n = 95 \<or> (97 \<le> n \<and> n \<le> 122))"

fun split_run :: "(char \<Rightarrow> bool) \<Rightarrow> string \<Rightarrow> bool \<Rightarrow> string \<Rightarrow> string list" where
  "split_run sep cur in_sep [] = [rev cur]"
| "split_run sep cur in_sep (c # cs) =
     (if sep c then (if in_sep then split_run sep cur True cs
                     else rev cur # split_run sep [] True cs)
      else split_run sep (c # cur) False cs)"

definition split_on :: "(char \<Rightarrow> bool) \<Rightarrow> string \<Rightarrow> string list" where
  "split_on sep s = split_run sep [] False s"

fun join :: "string \<Rightarrow> string list \<Rightarrow> string" where
  "join sep [] = []"
| "join sep [x] = x"
| "join sep (x # y # ys) = x @ sep @ join sep (y # ys)"


section \<open>JSON rendering\<close>

text \<open>
  \<^verbatim>\<open>JSON.stringify({name, entityType, observations})\<close>, the text stored in the columns
  \<^verbatim>\<open>original_content\<close> and \<^verbatim>\<open>optimized_content\<close>.
\<close>

definition hex_digit :: "nat \<Rightarrow> char" where
  "hex_digit n = (if n < 10 then char_of (48 + n) else char_of (87 + n))"

definition json_char :: "char \<Rightarrow> string" where
  "json_char c =
     (let n = (of_char c :: nat)
      in if c = CHR 0x22 then [CHR 0x5C, CHR 0x22]
         else if c = CHR 0x5C then [CHR 0x5C, CHR 0x5C]
         else if c = CHR 0x08 then [CHR 0x5C, CHR ''b'']
         else if c = CHR 0x0C then [CHR 0x5C, CHR ''f'']
         else if c = CHR 0x0A then [CHR 0x5C, CHR ''n'']
         else if c = CHR 0x0D then [CHR 0x5C, CHR ''r'']
         else if c = CHR 0x09 then [CHR 0x5C, CHR ''t'']
         else if n < 32 then [CHR 0x5C, CHR ''u'', CHR ''0'', CHR ''0'',
                              hex_digit (n div 16), hex_digit (n mod 16)]
         else [c])"

definition json_string :: "string \<Rightarrow> string" where
  "json_string s = [CHR 0x22] @ concat (map json_char s) @ [CHR 0x22]"

definition json_entity :: "string \<Rightarrow> string \<Rightarrow> string list \<Rightarrow> string" where
  "json_entity nm ty obs =
     ''{'' @ json_string ''name'' @ '':'' @ json_string nm @ '',''
       @ json_string ''entityType'' @ '':'' @ json_string ty @ '',''
       @ json_string ''observations'' @ '':['' @ join '','' (map json_string obs) @ '']}''"

section \<open>The database\<close>

text \<open>
  The schema of \<^verbatim>\<open>SQLiteConnection.createSchema\<close>: one record per table row, a table
  as the list of its rows in insertion order together with its AUTOINCREMENT counter
  (\<^verbatim>\<open>sqlite_sequence\<close>). A new rowid is one more than the largest rowid the table holds
  or has ever held. The columns \<^verbatim>\<open>created_at\<close>, \<^verbatim>\<open>updated_at\<close>, \<^verbatim>\<open>token_count\<close>
  and \<^verbatim>\<open>compression_ratio\<close> are written but never read by the operations below and
  are left out; \<^verbatim>\<open>last_accessed\<close> is filled with the clock reading at insertion, which
  the operations take as the parameter \<open>now\<close>. \<open>initialize\<close> is the database after
  \<^verbatim>\<open>initialize()\<close> on an empty directory. Errors thrown by the operations are values of
  type \<open>error\<close>; an operation that changes the database before it throws returns the
  changed database with the error, since the statements run outside any transaction.
\<close>

record branch_row =
  b_id :: nat
  b_name :: string
  b_purpose :: string

record entity_row =
  e_id :: nat
  e_name :: string
  e_entity_type :: string
  e_branch_id :: nat
  e_status :: string
  e_status_reason :: "string option"
  e_original_content :: string
  e_optimized_content :: string
  e_last_accessed :: string

record observation_row =
  o_id :: nat
  o_entity_id :: nat
  o_content :: string
  o_optimized_content :: string
  o_sequence_order :: int

record relation_row =
  r_id :: nat
  r_from_entity_id :: nat
  r_to_entity_id :: nat
  r_relation_type :: string
  r_branch_id :: nat

record keyword_row =
  k_id :: nat
  k_keyword :: string
  k_entity_id :: nat
  k_weight :: rat
  k_context :: string

record cross_reference_row =
  x_id :: nat
  x_from_entity_id :: nat
  x_target_branch_id :: nat
  x_target_entity_name :: string

record 'r table =
  rows :: "'r list"
  seq :: nat

record db =
  memory_branches_tbl :: "branch_row table"
  entities_tbl :: "entity_row table"
  observations_tbl :: "observation_row table"
  relations_tbl :: "relation_row table"
  keywords_tbl :: "keyword_row table"
  cross_references_tbl :: "cross_reference_row table"

definition next_rowid :: "('r \<Rightarrow> nat) \<Rightarrow> 'r table \<Rightarrow> nat" where
  "next_rowid rid t = Suc (fold max (map rid (rows t)) (seq t))"

definition insert_row :: "('r \<Rightarrow> nat) \<Rightarrow> (nat \<Rightarrow> 'r) \<Rightarrow> 'r table \<Rightarrow> 'r table" where
  "insert_row rid mk t =
     (let i = next_rowid rid t in \<lparr>rows = rows t @ [mk i], seq = i\<rparr>)"


definition empty_table :: "'r table" where
  "empty_table = \<lparr>rows = [], seq = 0\<rparr>"

definition main_purpose :: string where
  "main_purpose = ''Main project memory - core entities, business logic, and system architecture''"

definition initialize :: db where
  "initialize =
     \<lparr>memory_branches_tbl = \<lparr>rows = [\<lparr>b_id = 1, b_name = ''main'', b_purpose = main_purpose\<rparr>], seq = 1\<rparr>,
      entities_tbl = empty_table, observations_tbl = empty_table, relations_tbl = empty_table,
      keywords_tbl = empty_table, cross_references_tbl = empty_table\<rparr>"

datatype error =
    EntityExists string
  | EntityNotFound string string
  | CannotDeleteMain
  | BranchIdNotFound nat
  | SqliteConstraint

subsection \<open>Branches\<close>

text \<open>
  \<^verbatim>\<open>SQLiteConnection.getBranchId\<close>, \<^verbatim>\<open>getBranchName\<close> and
  \<^verbatim>\<open>SQLiteBranchOperations.deleteBranch\<close>. The optional parameter \<^verbatim>\<open>branchName\<close> is
  only ever tested for truthiness, so the empty string stands for the absent name as
  well. \<^verbatim>\<open>DELETE FROM memory_branches\<close> fails under \<^verbatim>\<open>foreign_keys = ON\<close> while a row
  of \<^verbatim>\<open>entities\<close>, \<^verbatim>\<open>relations\<close> or \<^verbatim>\<open>cross_references\<close> refers to the branch.
\<close>

definition getBranchId :: "string \<Rightarrow> db \<Rightarrow> nat \<times> db" where
  "getBranchId branchName d =
     (let name = (if branchName = [] then ''main'' else branchName)
      in case find (\<lambda>b. b_name b = name) (rows (memory_branches_tbl d)) of
           Some branch \<Rightarrow> (b_id branch, d)
         | None \<Rightarrow>
             (let t = insert_row b_id
                        (\<lambda>i. \<lparr>b_id = i, b_name = name,
                               b_purpose = ''Auto-created branch: '' @ name\<rparr>)
                        (memory_branches_tbl d)
              in (seq t, d\<lparr>memory_branches_tbl := t\<rparr>)))"

definition getBranchName :: "nat \<Rightarrow> db \<Rightarrow> error + string" where
  "getBranchName branchId d =
     (case find (\<lambda>b. b_id b = branchId) (rows (memory_branches_tbl d)) of
        None \<Rightarrow> Inl (BranchIdNotFound branchId)
      | Some branch \<Rightarrow> Inr (b_name branch))"




subsection \<open>Entities\<close>

text \<open>
  \<^verbatim>\<open>SQLiteEntityOperations\<close>: the input records of \<^verbatim>\<open>memory-types.ts\<close> and
  \<^verbatim>\<open>createEntities\<close> with \<^verbatim>\<open>createSingleEntity\<close>, \<^verbatim>\<open>createCrossReference\<close> and
  \<^verbatim>\<open>getCrossReferences\<close>. \<open>keywordData\<close> is the field \<^verbatim>\<open>_keywordData.keywords\<close> the
  manager attaches. The four steps of \<^verbatim>\<open>createSingleEntity\<close> after its checks (insert
  the entity, its observations, its keywords, its cross-references) are definitions of
  their own. A failure inside the loop of \<^verbatim>\<open>createEntities\<close> is logged and the loop
  goes on.
\<close>

record cross_reference =
  memoryBranch :: string
  entityNames :: "string list"

record entity =
  name :: string
  entityType :: string
  observations :: "string list"
  crossRefs :: "cross_reference list"
  status :: "string option"
  statusReason :: "string option"
  keywordData :: "string list option"

record relation =
  rel_from :: string
  rel_to :: string
  relationType :: string

record knowledge_graph =
  entities :: "entity list"
  relations :: "relation list"

definition find_entity :: "string \<Rightarrow> nat \<Rightarrow> db \<Rightarrow> entity_row option" where
  "find_entity nm branchId d =
     find (\<lambda>e. e_name e = nm \<and> e_branch_id e = branchId) (rows (entities_tbl d))"

definition or_default :: "string \<Rightarrow> string \<Rightarrow> string" where
  "or_default s dflt = (if s = [] then dflt else s)"

definition status_or_active :: "string option \<Rightarrow> string" where
  "status_or_active st = (case st of None \<Rightarrow> ''active'' | Some s \<Rightarrow> or_default s ''active'')"

definition getCrossReferences :: "string \<Rightarrow> nat \<Rightarrow> db \<Rightarrow> cross_reference list" where
  "getCrossReferences entityName branchId d =
     (let refs = sort_key (\<lambda>(tb, tn, bn). tb)
                   [(x_target_branch_id cr, x_target_entity_name cr, b_name mb).
                      cr \<leftarrow> rows (cross_references_tbl d),
                      mb \<leftarrow> filter (\<lambda>mb. b_id mb = x_target_branch_id cr)
                                    (rows (memory_branches_tbl d)),
                      e \<leftarrow> filter (\<lambda>e. e_id e = x_from_entity_id cr) (rows (entities_tbl d)),
                      e_name e = entityName \<and> e_branch_id e = branchId]
      in map (\<lambda>tb. \<lparr>memoryBranch = (case find (\<lambda>(tb', tn, bn). tb' = tb) refs of
                                        Some (tb', tn, bn) \<Rightarrow> bn | None \<Rightarrow> []),
                      entityNames = map (\<lambda>(tb', tn, bn). tn)
                                      (filter (\<lambda>(tb', tn, bn). tb' = tb) refs)\<rparr>)
             (remdups (map (\<lambda>(tb, tn, bn). tb) refs)))"

definition createCrossReference ::
    "string \<Rightarrow> string \<Rightarrow> string list \<Rightarrow> string \<Rightarrow> db \<Rightarrow> (error + unit) \<times> db" where
  "createCrossReference entityName targetBranch targetEntityNames sourceBranch d =
     (let (sourceBranchId, d1) = getBranchId sourceBranch d;
          (targetBranchId, d2) = getBranchId targetBranch d1
      in case find_entity entityName sourceBranchId d2 of
           None \<Rightarrow> (Inl (EntityNotFound entityName (or_default sourceBranch ''main'')), d2)
         | Some sourceEntity \<Rightarrow>
             (Inr (),
              fold (\<lambda>targetEntityName dd.
                      case find_entity targetEntityName targetBranchId dd of
                        None \<Rightarrow> dd
                      | Some targetEntity \<Rightarrow>
                          dd\<lparr>cross_references_tbl :=
                               insert_row x_id
                                 (\<lambda>i. \<lparr>x_id = i, x_from_entity_id = e_id sourceEntity,
                                        x_target_branch_id = targetBranchId,
                                        x_target_entity_name = targetEntityName\<rparr>)
                                 (cross_references_tbl dd)\<rparr>)
                   targetEntityNames d2))"

definition insert_observation :: "nat \<Rightarrow> string \<Rightarrow> int \<Rightarrow> db \<Rightarrow> db" where
  "insert_observation entityId content sequence d =
     d\<lparr>observations_tbl :=
         insert_row o_id
           (\<lambda>i. \<lparr>o_id = i, o_entity_id = entityId, o_content = content,
                  o_optimized_content = content, o_sequence_order = sequence\<rparr>)
           (observations_tbl d)\<rparr>"

definition store_keyword :: "nat \<Rightarrow> string \<Rightarrow> db \<Rightarrow> db" where
  "store_keyword entityId keyword d =
     (if keyword \<noteq> [] \<and> js_trim keyword \<noteq> []
      then d\<lparr>keywords_tbl :=
               insert_row k_id
                 (\<lambda>i. \<lparr>k_id = i, k_keyword = toLowerCase (js_trim keyword),
                        k_entity_id = entityId, k_weight = 1, k_context = ''entity_content''\<rparr>)
                 (keywords_tbl d)\<rparr>
      else d)"

definition insert_entity ::
    "string \<Rightarrow> entity \<Rightarrow> string \<Rightarrow> string \<Rightarrow> string list \<Rightarrow> nat \<Rightarrow> db \<Rightarrow> nat \<times> db" where
  "insert_entity now ent validName validEntityType validObservations branchId d =
     (let originalContent = json_entity validName validEntityType validObservations;
          t = insert_row e_id
                (\<lambda>i. \<lparr>e_id = i, e_name = validName, e_entity_type = validEntityType,
                       e_branch_id = branchId, e_status = status_or_active (status ent),
                       e_status_reason = (case statusReason ent of
                                            None \<Rightarrow> None
                                          | Some r \<Rightarrow> if r = [] then None else Some r),
                       e_original_content = originalContent,
                       e_optimized_content = originalContent,
                       e_last_accessed = now\<rparr>)
                (entities_tbl d)
      in (seq t, d\<lparr>entities_tbl := t\<rparr>))"

definition insert_observations :: "nat \<Rightarrow> string list \<Rightarrow> db \<Rightarrow> db" where
  "insert_observations entityId validObservations d =
     fold (\<lambda>(i, obs). insert_observation entityId obs (int i)) (enumerate 0 validObservations) d"

definition store_keywords :: "nat \<Rightarrow> string list option \<Rightarrow> db \<Rightarrow> db" where
  "store_keywords entityId kwData d =
     (case kwData of
        None \<Rightarrow> d
      | Some kws \<Rightarrow> fold (store_keyword entityId) kws d)"

definition process_crossRefs :: "string \<Rightarrow> nat \<Rightarrow> cross_reference list \<Rightarrow> db \<Rightarrow> error + db" where
  "process_crossRefs validName branchId refs d =
     (if refs = [] then Inr d
      else case getBranchName branchId d of
             Inl err \<Rightarrow> Inl err
           | Inr branchName \<Rightarrow>
               Inr (fold (\<lambda>cr dd. snd (createCrossReference validName (memoryBranch cr)
                                          (entityNames cr) branchName dd))
                      refs d))"

definition createSingleEntity :: "string \<Rightarrow> entity \<Rightarrow> nat \<Rightarrow> db \<Rightarrow> (error + entity) \<times> db" where
  "createSingleEntity now ent branchId d =
     (let validName = or_default (js_trim (name ent)) ''Unnamed Entity'';
          validEntityType = or_default (js_trim (entityType ent)) ''Unknown'';
          validObservations = filter (\<lambda>obs. obs \<noteq> [] \<and> js_trim obs \<noteq> []) (observations ent)
      in case find_entity validName branchId d of
           Some existing \<Rightarrow> (Inl (EntityExists validName), d)
         | None \<Rightarrow>
             if branchId \<notin> set (map b_id (rows (memory_branches_tbl d)))
             then (Inl SqliteConstraint, d)
             else
               (let (entityId, d1) = insert_entity now ent validName validEntityType
                                       validObservations branchId d;
                    d2 = insert_observations entityId validObservations d1;
                    d3 = store_keywords entityId (keywordData ent) d2
                in case process_crossRefs validName branchId (crossRefs ent) d3 of
                     Inl err \<Rightarrow> (Inl err, d3)
                   | Inr d4 \<Rightarrow>
                       (Inr \<lparr>name = validName, entityType = validEntityType,
                             observations = validObservations,
                             crossRefs = getCrossReferences validName branchId d4,
                             status = Some (status_or_active (status ent)),
                             statusReason = statusReason ent,
                             keywordData = None\<rparr>, d4)))"

fun createEntities_loop :: "string \<Rightarrow> nat \<Rightarrow> entity list \<Rightarrow> db \<Rightarrow> entity list \<times> db" where
  "createEntities_loop now branchId [] d = ([], d)"
| "createEntities_loop now branchId (ent # ents) d =
     (case createSingleEntity now ent branchId d of
        (Inl err, d1) \<Rightarrow> createEntities_loop now branchId ents d1
      | (Inr createdEntity, d1) \<Rightarrow>
          (let (created, d2) = createEntities_loop now branchId ents d1
           in (createdEntity # created, d2)))"

definition createEntities :: "string \<Rightarrow> entity list \<Rightarrow> string \<Rightarrow> db \<Rightarrow> entity list \<times> db" where
  "createEntities now ents branchName d =
     (let (branchId, d1) = getBranchId branchName d
      in createEntities_loop now branchId ents d1)"


subsection \<open>Observations\<close>

text \<open>
  \<^verbatim>\<open>SQLiteEntityOperations.addObservations\<close>. \<open>max_sequence_order\<close> is the query
  \<^verbatim>\<open>COALESCE(MAX(sequence_order), -1)\<close>; \<^verbatim>\<open>(maxSeq?.max_seq || -1) + 1\<close> reads a
  maximum of 0 as falsy. An observation is stored at \<^verbatim>\<open>startSeq + i\<close>, with \<open>i\<close> its
  index in the contents given.
\<close>

record observation_request =
  entityName :: string
  contents :: "string list"

record observation_result =
  added_entityName :: string
  addedObservations :: "string list"

definition max_sequence_order :: "nat \<Rightarrow> db \<Rightarrow> int" where
  "max_sequence_order entityId d =
     fold max (map o_sequence_order
                 (filter (\<lambda>ob. o_entity_id ob = entityId) (rows (observations_tbl d)))) (- 1)"

definition addObservations_entity ::
    "nat \<Rightarrow> string list \<Rightarrow> db \<Rightarrow> string list \<times> db" where
  "addObservations_entity entityId cs d =
     (let max_seq = max_sequence_order entityId d;
          startSeq = (if max_seq = 0 then - 1 else max_seq) + 1;
          added = filter (\<lambda>(i, content). content \<noteq> [] \<and> js_trim content \<noteq> [])
                    (enumerate 0 cs)
      in (map snd added,
          fold (\<lambda>(i, content). insert_observation entityId content (startSeq + int i)) added d))"

fun addObservations_loop ::
    "nat \<Rightarrow> observation_request list \<Rightarrow> db \<Rightarrow> observation_result list \<times> db" where
  "addObservations_loop branchId [] d = ([], d)"
| "addObservations_loop branchId (obs # rest) d =
     (case find_entity (entityName obs) branchId d of
        None \<Rightarrow> addObservations_loop branchId rest d
      | Some ent \<Rightarrow>
          (let (added, d1) = addObservations_entity (e_id ent) (contents obs) d;
               (results, d2) = addObservations_loop branchId rest d1
           in (\<lparr>added_entityName = entityName obs, addedObservations = added\<rparr> # results, d2)))"

definition addObservations ::
    "observation_request list \<Rightarrow> string \<Rightarrow> db \<Rightarrow> observation_result list \<times> db" where
  "addObservations reqs branchName d =
     (let (branchId, d1) = getBranchId branchName d
      in addObservations_loop branchId reqs d1)"

subsection \<open>Relations\<close>





section \<open>Search\<close>

text \<open>
  \<^verbatim>\<open>SQLiteSearchOperations\<close>. A row of a strategy's result set is the entity row, the
  \<^verbatim>\<open>GROUP_CONCAT\<close> of the joined observation contents and the strategy's
  \<^verbatim>\<open>relevance_score\<close>. Result sets are built in table order and then ordered as the
  \<^verbatim>\<open>ORDER BY\<close> clause says, rows of equal rank staying in table order. The full-text
  index is SQLite's FTS5 module: \<open>fts\<close> maps a \<^verbatim>\<open>MATCH\<close> expression to the rank of each
  matching rowid, or to \<open>None\<close> when the engine rejects the expression.

  \<open>like p s\<close> is SQLite's \<^verbatim>\<open>s LIKE p\<close>: \<^verbatim>\<open>%\<close> stands for any run of characters,
  \<^verbatim>\<open>_\<close> for one character, and ASCII letters match without regard to case.
  \<open>sort_desc\<close> is a stable sort into descending order of the key, which is what
  \<^verbatim>\<open>Array.prototype.sort\<close> does with the comparator \<^verbatim>\<open>(a, b) => b.k - a.k\<close>.
  In \<^verbatim>\<open>searchByKeywords\<close> the join with observations and keywords repeats an entity
  once per pair of an observation and a matching keyword, which is what \<^verbatim>\<open>COUNT(k.id)\<close>
  counts. In \<^verbatim>\<open>searchByLike\<close> the parameters are bound to the placeholders in the order
  of the statement text (the score expressions of the \<^verbatim>\<open>SELECT\<close> list first, the
  \<^verbatim>\<open>WHERE\<close> conditions after them), whereas the code pushes them interleaved;
  \<open>like_params\<close> is the list as pushed, and the score and the condition take their
  patterns from it by position. The score reads \<^verbatim>\<open>o.content\<close> outside any aggregate;
  the model takes it from the last joined row of the entity's group. The strategies are
  only called with a non-empty list of terms. The keyword weight and the scores are
  rationals. A JavaScript \<^verbatim>\<open>Map\<close> keyed by entity id is an association list in
  insertion order, \<open>map_set\<close> replacing the value of a key in place.
\<close>

record result_row =
  row_entity :: entity_row
  row_observations :: "string option"
  relevance_score :: rat

definition ascii_lower :: "char \<Rightarrow> char" where
  "ascii_lower c =
     (let n = (of_char c :: nat) in if 65 \<le> n \<and> n \<le> 90 then char_of (n + 32) else c)"

fun like :: "string \<Rightarrow> string \<Rightarrow> bool" where
  "like [] [] = True"
| "like [] (c # cs) = False"
| "like (p # ps) [] = (p = CHR ''%'' \<and> like ps [])"
| "like (p # ps) (c # cs) =
     (if p = CHR ''%'' then like ps (c # cs) \<or> like (p # ps) cs
      else (p = CHR ''_'' \<or> ascii_lower p = ascii_lower c) \<and> like ps cs)"

definition contains_pattern :: "string \<Rightarrow> string" where
  "contains_pattern t = CHR ''%'' # t @ ''%''"

definition sort_desc :: "('a \<Rightarrow> 'k::linorder) \<Rightarrow> 'a list \<Rightarrow> 'a list" where
  "sort_desc f xs = rev (sort_key f (rev xs))"

definition statuses_or_active :: "string list \<Rightarrow> string list" where
  "statuses_or_active includeStatuses =
     (if includeStatuses \<noteq> [] then includeStatuses else [''active''])"

definition branch_status_ok :: "nat option \<Rightarrow> string list \<Rightarrow> entity_row \<Rightarrow> bool" where
  "branch_status_ok branchId statuses e =
     ((case branchId of None \<Rightarrow> True | Some b \<Rightarrow> e_branch_id e = b)
      \<and> e_status e \<in> set statuses)"

definition group_concat :: "string list \<Rightarrow> string option" where
  "group_concat xs = (if xs = [] then None else Some (join ''|'' xs))"

definition entity_observations :: "entity_row \<Rightarrow> db \<Rightarrow> observation_row list" where
  "entity_observations e d =
     filter (\<lambda>ob. o_entity_id ob = e_id e) (rows (observations_tbl d))"

definition separator_char :: "char \<Rightarrow> bool" where
  "separator_char c = (js_space c \<or> c \<in> set ''-_,./'')"

definition stopWords :: "string list" where
  "stopWords = [''the'', ''and'', ''or'', ''but'', ''in'', ''on'', ''at'', ''to'', ''for'',
                ''of'', ''with'', ''by'']"

definition prepareSearchTerms :: "string \<Rightarrow> string list" where
  "prepareSearchTerms query =
     (let terms = map js_trim
                    (filter (\<lambda>t. length t > 1) (split_on separator_char (toLowerCase query)))
      in filter (\<lambda>t. t \<notin> set stopWords) (rev (remdups (rev terms))))"

definition keyword_result ::
    "string list \<Rightarrow> nat option \<Rightarrow> string list \<Rightarrow> db \<Rightarrow> entity_row \<Rightarrow> result_row option" where
  "keyword_result searchTerms branchId statuses d e =
     (let obs = entity_observations e d;
          ks = filter (\<lambda>k. k_entity_id k = e_id e
                          \<and> (\<exists>t \<in> set searchTerms. like (contains_pattern t) (k_keyword k)))
                 (rows (keywords_tbl d))
      in case ks of
           [] \<Rightarrow> None
         | k # ks' \<Rightarrow>
             if branch_status_ok branchId statuses e
             then Some \<lparr>row_entity = e,
                        row_observations =
                          group_concat (concat (map (\<lambda>ob. map (\<lambda>k. o_content ob) ks) obs)),
                        relevance_score =
                          of_nat (length ks * max 1 (length obs))
                          * fold max (map k_weight ks') (k_weight k)\<rparr>
             else None)"

definition searchByKeywords ::
    "string list \<Rightarrow> nat option \<Rightarrow> string list \<Rightarrow> db \<Rightarrow> result_row list" where
  "searchByKeywords searchTerms branchId includeStatuses d =
     sort_desc relevance_score
       (List.map_filter
          (keyword_result searchTerms branchId (statuses_or_active includeStatuses) d)
          (rows (entities_tbl d)))"

definition fts_result ::
    "(nat \<Rightarrow> rat option) \<Rightarrow> nat option \<Rightarrow> string list \<Rightarrow> db \<Rightarrow> entity_row \<Rightarrow> result_row option" where
  "fts_result hits branchId statuses d e =
     (case hits (e_id e) of
        None \<Rightarrow> None
      | Some rank \<Rightarrow>
          if branch_status_ok branchId statuses e
          then Some \<lparr>row_entity = e,
                     row_observations = group_concat (map o_content (entity_observations e d)),
                     relevance_score = rank\<rparr>
          else None)"

definition searchByFTS ::
    "(string \<Rightarrow> (nat \<Rightarrow> rat option) option) \<Rightarrow> string list \<Rightarrow> nat option \<Rightarrow> string list \<Rightarrow> db
      \<Rightarrow> result_row list" where
  "searchByFTS fts searchTerms branchId includeStatuses d =
     (case fts (join '' OR '' searchTerms) of
        None \<Rightarrow> []
      | Some hits \<Rightarrow>
          sort_key relevance_score
            (List.map_filter (fts_result hits branchId (statuses_or_active includeStatuses) d)
               (rows (entities_tbl d))))"

fun pairs :: "'a list \<Rightarrow> ('a \<times> 'a) list" where
  "pairs (a # b # xs) = (a, b) # pairs xs"
| "pairs xs = []"

definition like_params :: "string list \<Rightarrow> string list" where
  "like_params searchTerms =
     concat (map (\<lambda>t. [contains_pattern t, contains_pattern t,
                        contains_pattern t, contains_pattern t]) searchTerms)
     @ concat (map (\<lambda>t. [contains_pattern t, contains_pattern t]) searchTerms)"

definition like_where :: "string list \<Rightarrow> nat \<Rightarrow> entity_row \<Rightarrow> string option \<Rightarrow> bool" where
  "like_where ps n e content =
     ((\<exists>(a, b) \<in> set (pairs (take (2 * n) ps)). like a (e_name e) \<or> like b (e_entity_type e))
      \<or> (\<exists>c \<in> set (drop (2 * n) ps). case content of None \<Rightarrow> False | Some s \<Rightarrow> like c s))"

definition like_score :: "string list \<Rightarrow> nat \<Rightarrow> entity_row \<Rightarrow> string option \<Rightarrow> rat" where
  "like_score ps n e content =
     sum_list (map (\<lambda>(a, b). if like a (e_name e) then 10
                              else if like b (e_entity_type e) then 8 else 0)
                 (pairs (take (2 * n) ps)))
     + sum_list (map (\<lambda>c. case content of
                             None \<Rightarrow> 0
                           | Some s \<Rightarrow> if like c s then 3 else 0)
                   (drop (2 * n) ps))"

definition like_result ::
    "string list \<Rightarrow> nat option \<Rightarrow> string list \<Rightarrow> db \<Rightarrow> entity_row \<Rightarrow> result_row option" where
  "like_result searchTerms branchId statuses d e =
     (let n = length searchTerms;
          params = like_params searchTerms;
          score_params = take (3 * n) params;
          where_params = take (3 * n) (drop (3 * n) params);
          obs = entity_observations e d;
          joined = (if obs = [] then [None] else map (\<lambda>ob. Some (o_content ob)) obs);
          kept = filter (like_where where_params n e) joined
      in if kept \<noteq> [] \<and> branch_status_ok branchId statuses e
            \<and> like_score score_params n e (last kept) > 0
         then Some \<lparr>row_entity = e,
                    row_observations = group_concat (concat (map (\<lambda>c. case c of
                                                                      None \<Rightarrow> []
                                                                    | Some s \<Rightarrow> [s]) kept)),
                    relevance_score = like_score score_params n e (last kept)\<rparr>
         else None)"

definition searchByLike ::
    "string list \<Rightarrow> nat option \<Rightarrow> string list \<Rightarrow> db \<Rightarrow> result_row list" where
  "searchByLike searchTerms branchId includeStatuses d =
     sort_desc relevance_score
       (sort_desc (\<lambda>r. e_last_accessed (row_entity r))
          (List.map_filter
             (like_result searchTerms branchId (statuses_or_active includeStatuses) d)
             (rows (entities_tbl d))))"

fun map_set :: "nat \<Rightarrow> 'v \<Rightarrow> (nat \<times> 'v) list \<Rightarrow> (nat \<times> 'v) list" where
  "map_set k v [] = [(k, v)]"
| "map_set k v ((k', v') # m) = (if k' = k then (k, v) # m else (k', v') # map_set k v m)"

definition add_keyword_result :: "result_row \<Rightarrow> (nat \<times> result_row) list \<Rightarrow> (nat \<times> result_row) list" where
  "add_keyword_result result results =
     map_set (e_id (row_entity result))
       (result\<lparr>relevance_score := relevance_score result + 15\<rparr>) results"

definition add_bonus_result ::
    "rat \<Rightarrow> result_row \<Rightarrow> (nat \<times> result_row) list \<Rightarrow> (nat \<times> result_row) list" where
  "add_bonus_result bonus result results =
     (case map_of results (e_id (row_entity result)) of
        Some existing \<Rightarrow>
          map_set (e_id (row_entity result))
            (existing\<lparr>relevance_score := relevance_score existing + bonus\<rparr>) results
      | None \<Rightarrow>
          map_set (e_id (row_entity result)) (result\<lparr>relevance_score := bonus\<rparr>) results)"

definition merge_results ::
    "result_row list \<Rightarrow> result_row list \<Rightarrow> result_row list \<Rightarrow> (nat \<times> result_row) list" where
  "merge_results keywordResults ftsResults likeResults =
     fold (add_bonus_result 5) likeResults
       (fold (add_bonus_result 10) ftsResults
          (fold add_keyword_result keywordResults []))"

definition executeEnhancedSearch ::
    "(string \<Rightarrow> (nat \<Rightarrow> rat option) option) \<Rightarrow> string list \<Rightarrow> nat option \<Rightarrow> string list \<Rightarrow> db
      \<Rightarrow> result_row list" where
  "executeEnhancedSearch fts searchTerms branchId includeStatuses d =
     (if searchTerms = [] then []
      else take 50
             (sort_desc relevance_score
                (filter (\<lambda>result. relevance_score result > 0)
                   (map snd
                      (merge_results
                         (searchByKeywords searchTerms branchId includeStatuses d)
                         (searchByFTS fts searchTerms branchId includeStatuses d)
                         (searchByLike searchTerms branchId includeStatuses d))))))"







section \<open>Text processor\<close>









text \<open>
  \<^verbatim>\<open>TextProcessor.calculateSetSimilarity(set1, set2)\<close> of
  \<^verbatim>\<open>modules/similarity/text-processor.js\<close>. A JavaScript \<^verbatim>\<open>Set\<close> is a finite set;
  \<^verbatim>\<open>size\<close> is \<open>fcard\<close>. The quotient of the two sizes is taken in the rationals.
\<close>

definition calculateSetSimilarity :: "'a fset \<Rightarrow> 'a fset \<Rightarrow> rat" where
  "calculateSetSimilarity set1 set2 =
     (if fcard set1 = 0 \<and> fcard set2 = 0 then 1
      else if fcard set1 = 0 \<or> fcard set2 = 0 then 0
      else (let intersection = ffilter (\<lambda>x. x |\<in>| set2) set1;
                union = set1 |\<union>| set2
            in of_nat (fcard intersection) / of_nat (fcard union)))"








section \<open>Relationship detector\<close>















section \<open>Memory optimizer\<close>

text \<open>
  \<^verbatim>\<open>MemoryOptimizer\<close> of \<^verbatim>\<open>memory-optimizer.ts\<close>: the three compression levels and
  the field \<^verbatim>\<open>optimized\<close> of the result of \<^verbatim>\<open>optimize\<close>. The token counts, keywords
  and entities of the result are computed from the texts and do not feed into that field.
  Strings are lists of code points below 256; \<^verbatim>\<open>\s\<close> is \<open>js_space\<close>, \<^verbatim>\<open>\w\<close> is
  \<open>word_char\<close>, and each regular-expression replacement is a left-to-right scan.
\<close>

datatype compression_level = Minimal | Balanced | Aggressive

definition abbreviations :: "(string \<times> string) list" where
  "abbreviations =
     [(''configuration'', ''config''), (''implementation'', ''impl''), (''application'', ''app''),
      (''environment'', ''env''), (''development'', ''dev''), (''production'', ''prod''),
      (''repository'', ''repo''), (''documentation'', ''docs''), (''requirements'', ''reqs''),
      (''specification'', ''spec''), (''performance'', ''perf''), (''optimization'', ''opt''),
      (''management'', ''mgmt''), (''information'', ''info''), (''technology'', ''tech''),
      (''framework'', ''fw''), (''library'', ''lib''), (''service'', ''svc''), (''server'', ''srv''),
      (''client'', ''cli''), (''request'', ''req''), (''response'', ''resp''), (''message'', ''msg''),
      (''session'', ''sess''), (''transaction'', ''txn''), (''operation'', ''op''),
      (''process'', ''proc''), (''system'', ''sys''), (''network'', ''net''), (''security'', ''sec''),
      (''encryption'', ''enc''), (''validation'', ''val'')]"

definition fillerWords :: "string list" where
  "fillerWords =
     [''the'', ''a'', ''an'', ''and'', ''or'', ''but'', ''in'', ''on'', ''at'', ''to'', ''for'',
      ''of'', ''with'', ''by'', ''very'', ''quite'', ''really'', ''just'', ''only'', ''also'',
      ''even'', ''still'', ''rather'', ''pretty'', ''fairly'', ''somewhat'', ''basically'',
      ''actually'', ''literally'', ''obviously'', ''clearly'', ''essentially'', ''generally'',
      ''typically'', ''usually'', ''normally'', ''please'', ''thank'', ''thanks'', ''hello'',
      ''hi'', ''hey'', ''well'', ''um'', ''uh'', ''oh'']"

fun collapse_run :: "bool \<Rightarrow> string \<Rightarrow> string" where
  "collapse_run in_ws [] = []"
| "collapse_run in_ws (c # cs) =
     (if js_space c then (if in_ws then collapse_run True cs else CHR '' '' # collapse_run True cs)
      else c # collapse_run False cs)"

definition collapse_whitespace :: "string \<Rightarrow> string" where
  "collapse_whitespace s = collapse_run False s"

function squeeze_newlines :: "string \<Rightarrow> string" where
  "squeeze_newlines [] = []"
| "squeeze_newlines (c # cs) =
     (if c = CHR 0x0A \<and> CHR 0x0A \<in> set (takeWhile js_space cs)
      then CHR 0x0A #
           squeeze_newlines
             (drop (length (takeWhile js_space cs)
                    - length (takeWhile (\<lambda>x. x \<noteq> CHR 0x0A) (rev (takeWhile js_space cs)))) cs)
      else c # squeeze_newlines cs)"
  by pat_completeness auto
termination
  by (relation "measure length") auto

definition minimalCompression :: "string \<Rightarrow> string" where
  "minimalCompression text = js_trim (squeeze_newlines (collapse_whitespace text))"

definition matches_ci :: "string \<Rightarrow> string \<Rightarrow> bool" where
  "matches_ci w text = (length w \<le> length text \<and> map ascii_lower (take (length w) text) = w)"

function replace_word :: "string \<Rightarrow> string \<Rightarrow> bool \<Rightarrow> string \<Rightarrow> string" where
  "replace_word full abbrev prev_word [] = []"
| "replace_word full abbrev prev_word (c # cs) =
     (if full \<noteq> [] \<and> \<not> prev_word \<and> matches_ci full (c # cs)
         \<and> (case drop (length full) (c # cs) of [] \<Rightarrow> True | n # rest \<Rightarrow> \<not> word_char n)
      then abbrev @ replace_word full abbrev True (drop (length full) (c # cs))
      else c # replace_word full abbrev (word_char c) cs)"
  by pat_completeness auto
termination
  by (relation "measure (\<lambda>(full, abbrev, prev_word, text). length text)") auto

definition clean_word :: "string \<Rightarrow> string" where
  "clean_word w = filter word_char (toLowerCase w)"

definition isImportantWord :: "string \<Rightarrow> bool" where
  "isImportantWord w =
     (length (clean_word w) > 3
      \<or> (\<exists>c \<in> set w. 65 \<le> (of_char c :: nat) \<and> (of_char c :: nat) \<le> 90)
      \<or> (\<exists>c \<in> set w. 48 \<le> (of_char c :: nat) \<and> (of_char c :: nat) \<le> 57))"

definition keep_word :: "string list \<Rightarrow> nat \<times> string \<Rightarrow> bool" where
  "keep_word ws iw =
     (let index = fst iw; w = snd iw
      in if clean_word w \<in> set fillerWords
         then (if index = 0 \<or> index = length ws - 1 then True
               else if ws ! (index + 1) \<noteq> [] \<and> isImportantWord (ws ! (index + 1)) then True
               else if ws ! (index - 1) \<noteq> [] \<and> isImportantWord (ws ! (index - 1)) then True
               else False)
         else True)"

definition balancedCompression :: "string \<Rightarrow> string" where
  "balancedCompression text =
     (let result = fold (\<lambda>(full, abbrev) r. replace_word full abbrev False r) abbreviations
                     (minimalCompression text);
          ws = split_on js_space result;
          filtered = map snd (filter (keep_word ws) (enumerate 0 ws))
      in join '' '' filtered)"

function replace_connective :: "string \<Rightarrow> string \<Rightarrow> bool \<Rightarrow> string \<Rightarrow> string" where
  "replace_connective w symb prev_word [] = []"
| "replace_connective w symb prev_word (c # cs) =
     (if w \<noteq> [] \<and> \<not> prev_word \<and> matches_ci w (c # cs)
         \<and> (case drop (length w) (c # cs) of [] \<Rightarrow> False | n # rest \<Rightarrow> js_space n)
      then symb @ replace_connective w symb False (dropWhile js_space (drop (length w) (c # cs)))
      else c # replace_connective w symb (word_char c) cs)"
  by pat_completeness auto
termination
proof (relation "measure (\<lambda>(w, symb, prev_word, text). length text)")
  show "wf (measure (\<lambda>(w, symb, prev_word, text). length text))" by simp
next
  fix w symb :: string and prev_word :: bool and c :: char and cs :: string
  assume "w \<noteq> [] \<and> \<not> prev_word \<and> matches_ci w (c # cs)
         \<and> (case drop (length w) (c # cs) of [] \<Rightarrow> False | n # rest \<Rightarrow> js_space n)"
  then have "w \<noteq> []" by simp
  then have "length (drop (length w) (c # cs)) < length (c # cs)" by (cases w) auto
  moreover have "length (dropWhile js_space (drop (length w) (c # cs)))
                   \<le> length (drop (length w) (c # cs))"
    by (rule length_dropWhile_le)
  ultimately show "((w, symb, False, dropWhile js_space (drop (length w) (c # cs))),
                    (w, symb, prev_word, c # cs))
                   \<in> measure (\<lambda>(w, symb, prev_word, text). length text)"
    by simp
next
  fix w symb :: string and prev_word :: bool and c :: char and cs :: string
  show "((w, symb, word_char c, cs), (w, symb, prev_word, c # cs))
          \<in> measure (\<lambda>(w, symb, prev_word, text). length text)"
    by simp
qed

definition aggressiveCompression :: "string \<Rightarrow> string" where
  "aggressiveCompression text =
     (let ws = split_on js_space (balancedCompression text);
          filtered = filter (\<lambda>w. clean_word w \<notin> set fillerWords) ws;
          result = join '' '' filtered
      in replace_connective ''which'' '':'' False
           (replace_connective ''that'' '':'' False
              (replace_connective ''and'' ''&'' False
                 (replace_connective ''with'' ''+'' False
                    (replace_connective ''has'' ''>'' False
                       (replace_connective ''is'' ''='' False result))))))"

definition optimized :: "compression_level \<Rightarrow> string \<Rightarrow> string" where
  "optimized level text =
     (case level of
        Minimal \<Rightarrow> minimalCompression text
      | Balanced \<Rightarrow> balancedCompression text
      | Aggressive \<Rightarrow> aggressiveCompression text)"

section \<open>Predicates on database states\<close>





definition ranked_by_score_then_last_accessed :: "result_row list \<Rightarrow> bool" where
  "ranked_by_score_then_last_accessed rs =
     sorted_wrt (\<lambda>a b. relevance_score b < relevance_score a
                    \<or> (relevance_score a = relevance_score b
                        \<and> e_last_accessed (row_entity b) \<le> e_last_accessed (row_entity a))) rs"

definition row_summary :: "result_row \<Rightarrow> string \<times> rat \<times> string" where
  "row_summary r = (e_name (row_entity r), relevance_score r, e_last_accessed (row_entity r))"


text \<open>
  \<open>single_spaced\<close>: every whitespace character of the text is a single blank that does not
  follow another whitespace character (the flag tells whether one precedes the text).
\<close>

fun single_spaced :: "bool \<Rightarrow> string \<Rightarrow> bool" where
  "single_spaced prev_ws [] = True"
| "single_spaced prev_ws (c # cs) =
     (if js_space c then c = CHR '' '' \<and> \<not> prev_ws \<and> single_spaced True cs
      else single_spaced False cs)"

section \<open>Concrete inputs\<close>

definition auth_entity :: entity where
  "auth_entity = \<lparr>name = ''Auth'', entityType = ''Service'', observations = [''JWT tokens''],
                   crossRefs = [], status = None, statusReason = None, keywordData = None\<rparr>"

definition empty_name_entity :: entity where
  "empty_name_entity = \<lparr>name = [], entityType = ''Invalid'', observations = [],
                         crossRefs = [], status = None, statusReason = None, keywordData = None\<rparr>"

definition blank_name_entity :: entity where
  "blank_name_entity = \<lparr>name = ''   '', entityType = ''Invalid'', observations = [],
                         crossRefs = [], status = None, statusReason = None, keywordData = None\<rparr>"




text \<open>
  \<open>fts_no_hits\<close> is the full-text index answering a query none of whose terms is a token
  of an indexed column: \<^verbatim>\<open>auth\<close> is no token of \<^verbatim>\<open>UserAuthForm\<close>.
\<close>

definition fts_no_hits :: "string \<Rightarrow> (nat \<Rightarrow> rat option) option" where
  "fts_no_hits q = Some (\<lambda>i. None)"

definition simple_entity :: "string \<Rightarrow> string \<Rightarrow> entity" where
  "simple_entity n ty = \<lparr>name = n, entityType = ty, observations = [],
                crossRefs = [], status = None, statusReason = None, keywordData = None\<rparr>"

definition db_ties :: db where
  "db_ties =
     snd (createEntities ''2024-06-01 00:00:00'' [simple_entity ''LoginPage'' ''AuthView''] ''main''
       (snd (createEntities ''2024-01-01 00:00:00'' [simple_entity ''UserAuthForm'' ''Form''] ''main''
          initialize)))"






section \<open>Properties\<close>

subsection \<open>Set similarity\<close>

lemma ffilter_member_inter: "ffilter (\<lambda>x. x |\<in>| B) A = A |\<inter>| B"
  by auto

lemma fcard_zero_iff: "fcard A = 0 \<longleftrightarrow> A = {||}"
  by (simp add: fcard_def) (metis bot_fset.rep_eq fset_inverse)

text \<open>
  Claim C8, as the code has it: the similarity of a set with itself is 1, the similarity is
  symmetric, and the similarity of a non-empty set with the empty set is 0. Two empty sets
  are caught by the first guard of the function and have similarity 1.
\<close>

theorem calculateSetSimilarity_laws:
  "calculateSetSimilarity A A = 1
   \<and> calculateSetSimilarity A B = calculateSetSimilarity B A
   \<and> (A \<noteq> {||} \<longrightarrow> calculateSetSimilarity A {||} = 0)
   \<and> calculateSetSimilarity ({||} :: 'a fset) {||} = 1"
proof -
  have same: "calculateSetSimilarity A A = 1"
    by (cases "A = {||}")
       (simp_all add: calculateSetSimilarity_def ffilter_member_inter fcard_zero_iff)
  have sym: "calculateSetSimilarity A B = calculateSetSimilarity B A"
    by (auto simp add: calculateSetSimilarity_def ffilter_member_inter Let_def
          inf_commute sup_commute)
  have empty: "A \<noteq> {||} \<longrightarrow> calculateSetSimilarity A {||} = 0"
    by (simp add: calculateSetSimilarity_def fcard_zero_iff)
  have both: "calculateSetSimilarity ({||} :: 'a fset) {||} = 1"
    by (simp add: calculateSetSimilarity_def)
  from same sym empty both show ?thesis by blast
qed

theorem calculateSetSimilarity_laws_witness:
  "calculateSetSimilarity {|''a'', ''b''|} {|''a'', ''b''|} = 1
   \<and> calculateSetSimilarity {|''a'', ''b''|} {|''b'', ''c''|}
       = calculateSetSimilarity {|''b'', ''c''|} {|''a'', ''b''|}
   \<and> {|''a'', ''b''|} \<noteq> {||}
   \<and> calculateSetSimilarity {|''a'', ''b''|} {||} = 0"
proof -
  have ne: "{|''a'', ''b''|} \<noteq> {||}" by simp
  from calculateSetSimilarity_laws [of "{|''a'', ''b''|}" "{|''b'', ''c''|}"] ne
  show ?thesis by blast
qed

text \<open>
  Claim C8 as stated asks for similarity 0 against the empty set for every set; for the
  empty set itself the function answers 1.
\<close>

theorem calculateSetSimilarity_empty_counterexample:
  "calculateSetSimilarity ({||} :: string fset) {||} \<noteq> 0"
  by (simp add: calculateSetSimilarity_def)

subsection \<open>Branch resolution\<close>































subsection \<open>Observations\<close>

text \<open>
  Claim C3 at a concrete input: an entity created with a single observation holds it at
  \<^verbatim>\<open>sequence_order = 0\<close>; \<^verbatim>\<open>(maxSeq?.max_seq || -1) + 1\<close> reads the maximum 0 as
  falsy, so the next observation is stored at \<^verbatim>\<open>sequence_order = 0\<close> again, which is
  not greater than the maximum before the call.
\<close>

theorem addObservations_reuses_sequence_zero:
  "(let d0 = snd (createEntities ''2024-01-01 00:00:00'' [auth_entity] ''main'' initialize);
        (res, d1) = addObservations [\<lparr>entityName = ''Auth'', contents = [''rate limit'']\<rparr>]
                      ''main'' d0
    in max_sequence_order 1 d0 = 0
       \<and> map addedObservations res = [[''rate limit'']]
       \<and> map (\<lambda>ob. (o_content ob, o_sequence_order ob)) (rows (observations_tbl d1))
           = [(''JWT tokens'', 0), (''rate limit'', 0)])"
  by code_simp

subsection \<open>Entity names\<close>

text \<open>
  Claim C9 at two concrete inputs: an entity whose name is the empty string, or three
  blanks, is not rejected; it is stored, and returned, under the name
  \<^verbatim>\<open>Unnamed Entity\<close>.
\<close>

theorem createEntities_empty_name_stored:
  "(let (created, d1) = createEntities ''2024-01-01 00:00:00'' [empty_name_entity] [] initialize
    in map name created = [''Unnamed Entity'']
       \<and> map (\<lambda>e. (e_name e, e_entity_type e, e_branch_id e)) (rows (entities_tbl d1))
           = [(''Unnamed Entity'', ''Invalid'', 1)])
   \<and> (let (created, d1) = createEntities ''2024-01-01 00:00:00'' [blank_name_entity] [] initialize
        in map name created = [''Unnamed Entity'']
           \<and> map (\<lambda>e. (e_name e, e_entity_type e, e_branch_id e)) (rows (entities_tbl d1))
               = [(''Unnamed Entity'', ''Invalid'', 1)])"
  by code_simp

subsection \<open>Relations\<close>


subsection \<open>Search\<close>


lemma sorted_sort_desc: "sorted_wrt (\<lambda>a b. f b \<le> f a) (sort_desc f xs)"
proof -
  have "sorted (map f (sort_key f (rev xs)))" by (rule sorted_sort_key)
  then have "sorted_wrt (\<lambda>a b. f a \<le> f b) (sort_key f (rev xs))" by (simp add: sorted_map)
  then show ?thesis by (simp add: sort_desc_def sorted_wrt_rev)
qed

lemma filter_sort_desc:
  "filter (\<lambda>y. f y = k) (sort_desc f xs) = filter (\<lambda>y. f y = k) xs"
  by (simp add: sort_desc_def rev_filter [symmetric] sort_key_stable)
















lemma filter_take_prefix:
  "filter P (take n xs) = take (length (filter P (take n xs))) (filter P xs)"
proof (induction xs arbitrary: n)
  case Nil
  show ?case by simp
next
  case (Cons x xs)
  show ?case
  proof (cases n)
    case 0
    then show ?thesis by simp
  next
    case (Suc m)
    then show ?thesis using Cons.IH [of m] by simp
  qed
qed



text \<open>
  Claim C5, as the code has it: the merged result is sorted by \<^verbatim>\<open>relevance_score\<close>
  descending and holds at most 50 rows; rows of equal score stay in the order in which
  the merge met them (a prefix of it, after truncation).
\<close>

theorem search_results_ranked:
  "sorted_wrt (\<lambda>a b. relevance_score b \<le> relevance_score a)
     (executeEnhancedSearch fts searchTerms branchId includeStatuses d)
   \<and> length (executeEnhancedSearch fts searchTerms branchId includeStatuses d) \<le> 50
   \<and> (\<exists>n. filter (\<lambda>r. relevance_score r = s)
              (executeEnhancedSearch fts searchTerms branchId includeStatuses d)
           = take n (filter (\<lambda>r. relevance_score r = s \<and> 0 < s)
               (map snd (merge_results
                           (searchByKeywords searchTerms branchId includeStatuses d)
                           (searchByFTS fts searchTerms branchId includeStatuses d)
                           (searchByLike searchTerms branchId includeStatuses d)))))"
proof -
  let ?m = "map snd (merge_results
                           (searchByKeywords searchTerms branchId includeStatuses d)
                           (searchByFTS fts searchTerms branchId includeStatuses d)
                           (searchByLike searchTerms branchId includeStatuses d))"
  let ?res = "executeEnhancedSearch fts searchTerms branchId includeStatuses d"
  have a: "sorted_wrt (\<lambda>a b. relevance_score b \<le> relevance_score a) ?res"
    by (simp add: executeEnhancedSearch_def sorted_sort_desc sorted_wrt_take)
  have b: "length ?res \<le> 50" by (simp add: executeEnhancedSearch_def)
  have c: "\<exists>n. filter (\<lambda>r. relevance_score r = s) ?res
                 = take n (filter (\<lambda>r. relevance_score r = s \<and> 0 < s) ?m)"
  proof (cases "searchTerms = []")
    case True
    have "filter (\<lambda>r. relevance_score r = s) ?res
            = take 0 (filter (\<lambda>r. relevance_score r = s \<and> 0 < s) ?m)"
      using True by (simp add: executeEnhancedSearch_def)
    then show ?thesis by blast
  next
    case False
    let ?pos = "filter (\<lambda>result. relevance_score result > 0) ?m"
    have res: "?res = take 50 (sort_desc relevance_score ?pos)"
      using False by (simp add: executeEnhancedSearch_def)
    have "filter (\<lambda>r. relevance_score r = s) (sort_desc relevance_score ?pos)
            = filter (\<lambda>r. relevance_score r = s) ?pos"
      by (rule filter_sort_desc)
    also have "\<dots> = filter (\<lambda>r. relevance_score r = s \<and> 0 < s) ?m"
      by (auto intro: filter_cong)
    finally have st: "filter (\<lambda>r. relevance_score r = s) (sort_desc relevance_score ?pos)
            = filter (\<lambda>r. relevance_score r = s \<and> 0 < s) ?m" .
    show ?thesis
      unfolding res
      using filter_take_prefix [of "\<lambda>r. relevance_score r = s" 50
                                  "sort_desc relevance_score ?pos"] st
      by metis
  qed
  from a b c show ?thesis by blast
qed

text \<open>
  Claim C5 as stated asks for ties to be broken by \<^verbatim>\<open>last_accessed\<close> descending. Two
  entities found by the LIKE strategy alone both receive the score 5; the one with the
  name match comes first although it was accessed earlier.
\<close>

theorem search_ties_counterexample:
  "map row_summary
     (executeEnhancedSearch fts_no_hits (prepareSearchTerms ''auth'') (Some 1) [] db_ties)
     = [(''UserAuthForm'', 5, ''2024-01-01 00:00:00''), (''LoginPage'', 5, ''2024-06-01 00:00:00'')]
   \<and> \<not> ranked_by_score_then_last_accessed
         (executeEnhancedSearch fts_no_hits (prepareSearchTerms ''auth'') (Some 1) [] db_ties)"
  by code_simp


subsection \<open>Similar entities\<close>




subsection \<open>Compression\<close>

lemma js_space_blank: "js_space (CHR '' '')"
  by (simp add: js_space_def)

lemma single_spaced_collapse: "single_spaced b (collapse_run b x)"
  by (induction x arbitrary: b) (auto simp add: js_space_blank)

lemma rev_dropWhile_split:
  "a = rev (dropWhile P (rev a)) @ rev (takeWhile P (rev a))"
proof -
  have "rev (takeWhile P (rev a) @ dropWhile P (rev a)) = a"
    by (simp only: takeWhile_dropWhile_id rev_rev_ident)
  from this [unfolded rev_append] show ?thesis by (rule sym)
qed

lemma collapse_run_fixed: "single_spaced b z \<Longrightarrow> collapse_run b z = z"
  by (induction z arbitrary: b) (auto split: if_splits)

lemma single_spaced_weaken: "single_spaced b z \<Longrightarrow> single_spaced False z"
  by (cases z) (auto split: if_splits)

lemma single_spaced_append:
  "single_spaced b (xs @ ys) \<Longrightarrow> single_spaced b xs \<and> single_spaced False ys"
proof (induction xs arbitrary: b)
  case Nil
  then show ?case by (auto intro: single_spaced_weaken)
next
  case (Cons x xs)
  then show ?case by (auto split: if_splits)
qed

lemma single_spaced_no_newline: "single_spaced b z \<Longrightarrow> CHR 0x0A \<notin> set z"
proof (induction z arbitrary: b)
  case Nil
  then show ?case by simp
next
  case (Cons c cs)
  have "js_space (CHR 0x0A)" by (simp add: js_space_def)
  with Cons show ?case by (auto split: if_splits)
qed

lemma squeeze_newlines_fixed: "CHR 0x0A \<notin> set z \<Longrightarrow> squeeze_newlines z = z"
  by (induction z) auto

lemma dropWhile_fixed: "xs = [] \<or> \<not> P (hd xs) \<Longrightarrow> dropWhile P xs = xs"
  by (cases xs) auto

lemma js_trim_split:
  "\<exists>pre post. y = pre @ js_trim y @ post"
proof -
  let ?a = "dropWhile js_space y"
  have "y = takeWhile js_space y @ ?a" by simp
  moreover have "?a = js_trim y @ rev (takeWhile js_space (rev ?a))"
    unfolding js_trim_def by (rule rev_dropWhile_split)
  ultimately have "y = takeWhile js_space y @ js_trim y @ rev (takeWhile js_space (rev ?a))"
    by simp
  then show ?thesis by blast
qed

lemma js_trim_ends:
  "(js_trim y = [] \<or> \<not> js_space (hd (js_trim y)))
   \<and> (js_trim y = [] \<or> \<not> js_space (last (js_trim y)))"
proof (cases "js_trim y = []")
  case True
  then show ?thesis by simp
next
  case False
  let ?a = "dropWhile js_space y"
  let ?t = "rev (takeWhile js_space (rev ?a))"
  have rz: "rev (js_trim y) = dropWhile js_space (rev ?a)" by (simp add: js_trim_def)
  have a: "?a = js_trim y @ ?t"
    unfolding js_trim_def by (rule rev_dropWhile_split)
  have "?a \<noteq> []" using a False by (metis append_is_Nil_conv)
  then have "\<not> js_space (hd ?a)" by (rule hd_dropWhile)
  moreover have "hd ?a = hd (js_trim y)" using a False by (metis hd_append2)
  ultimately have h: "\<not> js_space (hd (js_trim y))" by simp
  have "dropWhile js_space (rev ?a) \<noteq> []" using rz False by (metis rev_is_Nil_conv)
  then have "\<not> js_space (hd (dropWhile js_space (rev ?a)))" by (rule hd_dropWhile)
  then have "\<not> js_space (hd (rev (js_trim y)))" using rz by simp
  then have l: "\<not> js_space (last (js_trim y))" using False by (simp add: hd_rev)
  from h l show ?thesis by simp
qed

lemma js_trim_fixed:
  assumes "z = [] \<or> \<not> js_space (hd z)" and "z = [] \<or> \<not> js_space (last z)"
  shows "js_trim z = z"
proof -
  have "dropWhile js_space z = z" using assms(1) by (rule dropWhile_fixed)
  moreover have "dropWhile js_space (rev z) = rev z"
    using assms(2) by (intro dropWhile_fixed) (auto simp add: hd_rev)
  ultimately show ?thesis by (simp add: js_trim_def)
qed

lemma minimalCompression_idempotent:
  "minimalCompression (minimalCompression x) = minimalCompression x"
proof -
  let ?y = "collapse_whitespace x"
  let ?z = "js_trim ?y"
  have ssy: "single_spaced False ?y"
    unfolding collapse_whitespace_def by (rule single_spaced_collapse)
  then have "squeeze_newlines ?y = ?y"
    by (intro squeeze_newlines_fixed single_spaced_no_newline)
  then have m: "minimalCompression x = ?z" by (simp add: minimalCompression_def)
  obtain pre post where "?y = pre @ ?z @ post" using js_trim_split by blast
  with ssy have "single_spaced False (pre @ ?z @ post)" by simp
  then have "single_spaced False (?z @ post)" by (blast dest: single_spaced_append)
  then have ssz: "single_spaced False ?z" by (blast dest: single_spaced_append)
  then have c: "collapse_whitespace ?z = ?z"
    unfolding collapse_whitespace_def by (rule collapse_run_fixed)
  have s: "squeeze_newlines ?z = ?z"
    using ssz by (intro squeeze_newlines_fixed single_spaced_no_newline)
  have t: "js_trim ?z = ?z" using js_trim_ends [of ?y] by (intro js_trim_fixed) simp_all
  have "minimalCompression ?z = ?z" by (simp add: minimalCompression_def c s t)
  with m show ?thesis by simp
qed

text \<open>
  Claim C7, as the code has it: at the minimal compression level a second pass of
  \<^verbatim>\<open>optimize\<close> over its own output returns that output.
\<close>

theorem optimize_minimal_idempotent:
  "optimized Minimal (optimized Minimal x) = optimized Minimal x"
  by (simp add: optimized_def minimalCompression_idempotent)

text \<open>
  Claim C7 as stated covers every level. At the balanced level the filler word
  \<^verbatim>\<open>a\<close> of \<^verbatim>\<open>go very a up\<close> is kept in the first pass because its neighbour
  \<^verbatim>\<open>very\<close> is longer than three letters, and dropped in the second, where that
  neighbour is gone. At the aggressive level \<^verbatim>\<open>th-is e\<close> becomes \<^verbatim>\<open>th-=e\<close>, which a
  second pass reads as the filler word \<^verbatim>\<open>the\<close> and removes.
\<close>

theorem optimize_idempotent_counterexample:
  "optimized Balanced ''go very a up'' = ''go a up''
   \<and> optimized Balanced (optimized Balanced ''go very a up'') = ''go up''
   \<and> optimized Aggressive ''th-is e'' = ''th-=e''
   \<and> optimized Aggressive (optimized Aggressive ''th-is e'') = []"
  by code_simp

end
